theory Spec2Isabelle
  imports Complex_Main
begin

section \<open>Crop-aware ring bounds (\<open>equirect_utils.py\<close>)\<close>

text \<open>
  Angles are Python floats and ints in the source; they are modelled as exact reals, so
  rounding is not part of the model. A ring bound is either a pitch in degrees or Python's
  \<open>None\<close> (the ring was removed). An order comparison or an arithmetic operation on
  \<open>None\<close> raises \<open>TypeError\<close> in Python; that is a value of the result type here.
\<close>

datatype error =
  TypeError | ValueError | LinAlgError | KeyError | UnboundLocalError
  | SystemExit | Exception string

type_synonym bounds = "real option list"

text \<open>
  The inner loop of \<open>_crop_bottom\<close>:
  \<^verbatim>\<open>for j in range(i - 1, -1, -1): bound_arr[j] -= diff / (2 ** (i - j))\<close>.
  The second argument counts the indices still to visit: \<open>Suc j\<close> visits index \<open>j\<close>.
\<close>

fun sub_lower :: "nat \<Rightarrow> nat \<Rightarrow> real \<Rightarrow> bounds \<Rightarrow> error + bounds" where
  "sub_lower i 0 diff bound_arr = Inr bound_arr"
| "sub_lower i (Suc j) diff bound_arr =
     (case bound_arr ! j of
        None \<Rightarrow> Inl TypeError
      | Some x \<Rightarrow> sub_lower i j diff (bound_arr[j := Some (x - diff / 2 ^ (i - j))]))"

text \<open>
  The outer loop of \<open>_crop_bottom\<close> runs over \<open>reversed(list(enumerate(bound_arr)))\<close>: the
  pairs are a snapshot taken before the loop, the writes go to the live list.
\<close>

fun crop_bottom_loop :: "real \<Rightarrow> real \<Rightarrow> (nat \<times> real option) list \<Rightarrow> bounds \<Rightarrow> error + bounds" where
  "crop_bottom_loop new_bottom_start fov [] bound_arr = Inr bound_arr"
| "crop_bottom_loop new_bottom_start fov ((i, el) # rest) bound_arr =
     (case el of
        None \<Rightarrow> Inl TypeError
      | Some x \<Rightarrow>
          if x > new_bottom_start + fov / 2
          then crop_bottom_loop new_bottom_start fov rest (bound_arr[i := None])
          else if x > new_bottom_start
          then sub_lower i i (x - new_bottom_start) (bound_arr[i := Some new_bottom_start])
          else crop_bottom_loop new_bottom_start fov rest bound_arr)"

definition crop_bottom :: "bounds \<Rightarrow> real \<Rightarrow> real \<Rightarrow> error + bounds" where
  "crop_bottom bound_arr fov crop_factor =
     (let degrees_chopped = 180 * crop_factor;
          new_bottom_start = 90 - degrees_chopped - fov / 2
      in crop_bottom_loop new_bottom_start fov (rev (enumerate 0 bound_arr)) bound_arr)"

text \<open>
  The inner loop of \<open>_crop_top\<close>:
  \<^verbatim>\<open>for j in range(i + 1, len(bound_arr)): bound_arr[j] += diff / (2 ** (j - i))\<close>.
\<close>

function add_higher :: "nat \<Rightarrow> nat \<Rightarrow> real \<Rightarrow> bounds \<Rightarrow> error + bounds" where
  "add_higher i j diff bound_arr =
     (if j < length bound_arr
      then (case bound_arr ! j of
              None \<Rightarrow> Inl TypeError
            | Some x \<Rightarrow> add_higher i (Suc j) diff (bound_arr[j := Some (x + diff / 2 ^ (j - i))]))
      else Inr bound_arr)"
  by pat_completeness auto
termination
  by (relation "measure (\<lambda>(i, j, diff, bound_arr). length bound_arr - j)") auto

text \<open>
  The outer loop of \<open>_crop_top\<close> runs over \<open>enumerate(bound_arr)\<close>, which reads the live
  list at each index.
\<close>

function crop_top_loop :: "real \<Rightarrow> real \<Rightarrow> nat \<Rightarrow> bounds \<Rightarrow> error + bounds" where
  "crop_top_loop new_top_start fov i bound_arr =
     (if i < length bound_arr
      then (case bound_arr ! i of
              None \<Rightarrow> Inl TypeError
            | Some x \<Rightarrow>
                if x < new_top_start - fov / 2
                then crop_top_loop new_top_start fov (Suc i) (bound_arr[i := None])
                else if x < new_top_start
                then add_higher i (Suc i) (new_top_start - x) (bound_arr[i := Some new_top_start])
                else crop_top_loop new_top_start fov (Suc i) bound_arr)
      else Inr bound_arr)"
  by pat_completeness auto
termination
  by (relation "measure (\<lambda>(s, fov, i, bound_arr). length bound_arr - i)") auto

definition crop_top :: "bounds \<Rightarrow> real \<Rightarrow> real \<Rightarrow> error + bounds" where
  "crop_top bound_arr fov crop_factor =
     (let degrees_chopped = 180 * crop_factor;
          new_top_start = - 90 + degrees_chopped + fov / 2
      in crop_top_loop new_top_start fov 0 bound_arr)"

text \<open>
  The crop factor is the tuple \<open>(top, bottom, left, right)\<close> of the docstrings;
  \<open>crop_factor[k]\<close> is the component \<open>ck\<close> below.
\<close>

type_synonym crop_factor = "real \<times> real \<times> real \<times> real"

fun crop_bound_arr_vertical :: "bounds \<Rightarrow> real \<Rightarrow> crop_factor \<Rightarrow> error + bounds" where
  "crop_bound_arr_vertical bound_arr fov (c0, c1, c2, c3) =
     (case (if c1 > 0 then crop_bottom bound_arr fov c1 else Inr bound_arr) of
        Inl e \<Rightarrow> Inl e
      | Inr bound_arr' \<Rightarrow>
          if c0 > 0 then crop_top bound_arr' fov c0 else Inr bound_arr')"

section \<open>The sample grid\<close>

text \<open>
  The head of each \<open>generate_planar_projections_from_equirectangular*\<close> function: the
  horizontal bounds of the yaw range.
\<close>

fun yaw_bounds :: "crop_factor \<Rightarrow> real \<times> real" where
  "yaw_bounds (c0, c1, c2, c3) =
     (let left_bound = (if c3 > 0 then - 180 + 360 * c3 else - 180);
          right_bound = (if c2 > 0 then 180 - 360 * c2 else 180)
      in (left_bound, right_bound))"

text \<open>
  The horizontal bounds as the specification words them (left bound from the left crop
  fraction, right bound from the right one), for comparison with \<open>yaw_bounds\<close>.
\<close>

fun yaw_bounds_spec :: "crop_factor \<Rightarrow> real \<times> real" where
  "yaw_bounds_spec (crop_top_f, crop_bottom_f, crop_left_f, crop_right_f) =
     (if crop_left_f > 0 then - 180 + 360 * crop_left_f else - 180,
      if crop_right_f > 0 then 180 - 360 * crop_right_f else 180)"

text \<open>
  \<open>np.arange(start, stop, step)\<close> for a positive step: \<open>ceil((stop - start) / step)\<close>
  values \<open>start + k * step\<close>, none when that count is not positive.
\<close>

definition arange :: "real \<Rightarrow> real \<Rightarrow> real \<Rightarrow> real list" where
  "arange start stop step =
     map (\<lambda>k. start + real k * step) [0 ..< nat \<lceil>(stop - start) / step\<rceil>]"

text \<open>
  One ring of the grid:
  \<^verbatim>\<open>if bound_arr[k] is not None:
    for i in np.arange(left_bound, right_bound, step): yaw_pitch_pairs.append((i, bound_arr[k]))\<close>
\<close>

definition ring_pairs :: "real \<Rightarrow> real \<Rightarrow> real \<Rightarrow> real option \<Rightarrow> (real \<times> real) list" where
  "ring_pairs left_bound right_bound step b =
     (case b of None \<Rightarrow> [] | Some v \<Rightarrow> map (\<lambda>i. (i, v)) (arange left_bound right_bound step))"

text \<open>
  The range check that opens every \<open>generate_planar_projections_from_equirectangular*\<close>
  function: \<^verbatim>\<open>for i in crop_factor: if i < 0 or i > 1: ... sys.exit(1)\<close>.
\<close>

fun crop_factor_out_of_range :: "crop_factor \<Rightarrow> bool" where
  "crop_factor_out_of_range (c0, c1, c2, c3) =
     (c0 < 0 \<or> c0 > 1 \<or> c1 < 0 \<or> c1 > 1 \<or> c2 < 0 \<or> c2 > 1 \<or> c3 < 0 \<or> c3 > 1)"

text \<open>
  The grid builder: the range check, then the field of view and \<open>yaw_pitch_pairs\<close>. A
  fraction out of range ends the program (\<open>SystemExit\<close>). An unsupported
  \<open>samples_per_im\<close> takes neither branch: the field of view stays at its initial 120 and
  the list stays empty.
\<close>

definition build_yaw_pitch_pairs :: "int \<Rightarrow> crop_factor \<Rightarrow> error + real \<times> (real \<times> real) list" where
  "build_yaw_pitch_pairs samples_per_im crop_factor =
     (if crop_factor_out_of_range crop_factor then Inl SystemExit
      else
        let (left_bound, right_bound) = yaw_bounds crop_factor in
        if samples_per_im = 8 then
          (case crop_bound_arr_vertical [Some (- 45), Some 0, Some 45] 120 crop_factor of
             Inl e \<Rightarrow> Inl e
           | Inr bound_arr \<Rightarrow>
               Inr (120,
                    ring_pairs left_bound right_bound 90 (bound_arr ! 1) @
                    ring_pairs left_bound right_bound 180 (bound_arr ! 2) @
                    ring_pairs left_bound right_bound 180 (bound_arr ! 0)))
        else if samples_per_im = 14 then
          (case crop_bound_arr_vertical [Some (- 45), Some 0, Some 45] 110 crop_factor of
             Inl e \<Rightarrow> Inl e
           | Inr bound_arr \<Rightarrow>
               Inr (110,
                    ring_pairs left_bound right_bound 60 (bound_arr ! 1) @
                    ring_pairs left_bound right_bound 90 (bound_arr ! 2) @
                    ring_pairs left_bound right_bound 90 (bound_arr ! 0)))
        else Inr (120, []))"

section \<open>File names\<close>

text \<open>
  \<open>str.lower\<close> on the ASCII letters; other characters are left as they are.
\<close>

definition lower_char :: "char \<Rightarrow> char" where
  "lower_char c =
     (case map_of (zip ''ABCDEFGHIJKLMNOPQRSTUVWXYZ'' ''abcdefghijklmnopqrstuvwxyz'') c of
        None \<Rightarrow> c
      | Some l \<Rightarrow> l)"

definition lower :: "string \<Rightarrow> string" where
  "lower s = map lower_char s"

definition endswith :: "string \<Rightarrow> string \<Rightarrow> bool" where
  "endswith s suffix =
     (length suffix \<le> length s \<and> drop (length s - length suffix) s = suffix)"

text \<open>
  \<open>str.replace(old, new)\<close>: every occurrence of \<open>old\<close>, left to right, without
  overlap; an empty \<open>old\<close> matches before each character and at the end.
\<close>

function replace :: "string \<Rightarrow> string \<Rightarrow> string \<Rightarrow> string" where
  "replace s old new =
     (if old = [] then new @ concat (map (\<lambda>c. c # new) s)
      else case s of
             [] \<Rightarrow> []
           | c # cs \<Rightarrow>
               if take (length old) s = old
               then new @ replace (drop (length old) s) old new
               else c # replace cs old new)"
  by pat_completeness auto
termination
  by (relation "measure (\<lambda>(s, old, new). length s)") auto

text \<open>\<open>os.path.join\<close> of a directory and a file name, on POSIX paths.\<close>

definition os_path_join :: "string \<Rightarrow> string \<Rightarrow> string" where
  "os_path_join a b =
     (if take 1 b = ''/'' then b
      else if a = [] \<or> endswith a ''/'' then a @ b
      else a @ ''/'' @ b)"

text \<open>
  The address of an \<open>.exr\<close> companion, as all three places that need one compute it:
  \<^verbatim>\<open>if addr.endswith('.png'): addr = addr.replace('.png', '.exr')
elif addr.endswith('.jpg'): addr = addr.replace('.jpg', '.exr')
else: raise Exception("Image format for " + i + " is not supported!!!")\<close>
\<close>

definition exr_addr :: "string \<Rightarrow> string \<Rightarrow> error + string" where
  "exr_addr i addr =
     (if endswith addr ''.png'' then Inr (replace addr ''.png'' ''.exr'')
      else if endswith addr ''.jpg'' then Inr (replace addr ''.jpg'' ''.exr'')
      else Inl (Exception (''Image format for '' @ i @ '' is not supported!!!'')))"

text \<open>
  The filters of the file loops: \<^verbatim>\<open>i.lower().endswith((".jpg", ".png", ".jpeg", ".exr"))\<close>,
  in the two-exposure function \<^verbatim>\<open>i.lower().endswith((".jpg", ".png", ".jpeg"))\<close>, and the
  test \<^verbatim>\<open>i.lower().endswith((".exr"))\<close>.
\<close>

definition is_equirect_image :: "string \<Rightarrow> bool" where
  "is_equirect_image i =
     (endswith (lower i) ''.jpg'' \<or> endswith (lower i) ''.png'' \<or>
      endswith (lower i) ''.jpeg'' \<or> endswith (lower i) ''.exr'')"

definition is_ldr_image :: "string \<Rightarrow> bool" where
  "is_ldr_image i =
     (endswith (lower i) ''.jpg'' \<or> endswith (lower i) ''.png'' \<or> endswith (lower i) ''.jpeg'')"

definition is_exr :: "string \<Rightarrow> bool" where
  "is_exr i = endswith (lower i) ''.exr''"

text \<open>The decimal digits of \<open>count\<close>, as the f-string \<open>{count}\<close> prints them.\<close>

function str_nat :: "nat \<Rightarrow> string" where
  "str_nat n =
     (if n < 10 then [''0123456789'' ! n]
      else str_nat (n div 10) @ [''0123456789'' ! (n mod 10)])"
  by pat_completeness auto
termination
  by (relation "measure id") auto

text \<open>
  \<^verbatim>\<open>f"{output_dir}/{i[:-4]}_{count}.ext"\<close>: the slice \<open>i[:-4]\<close> drops the last four
  characters of the file name.
\<close>

definition planar_path :: "string \<Rightarrow> string \<Rightarrow> nat \<Rightarrow> string \<Rightarrow> string" where
  "planar_path output_dir i count ext =
     output_dir @ ''/'' @ take (length i - 4) i @ ''_'' @ str_nat count @ ext"

section \<open>Reprojection\<close>

text \<open>
  The warp itself (\<open>equilib.Equi2Pers\<close>) and the image codec are external. A projector
  object is the record of its constructor arguments, and a run of the direction loop is
  the list of warp calls it makes and of files it writes.
\<close>

record equi2pers =
  height :: "int option"
  width :: "int option"
  fov_x :: real
  mode :: string

datatype channel = Image | Mask | Hdr | MaskE1 | MaskE2 | E1 | E2

text \<open>
  One call \<^verbatim>\<open>projector(equi, rots={"roll": .., "pitch": .., "yaw": ..}, clip_output=..)\<close>;
  \<open>clip\<close> is the \<open>clip_output\<close> keyword, \<open>None\<close> when the call leaves the keyword to the library's default.
\<close>

record warp_call =
  projector :: equi2pers
  equi :: channel
  roll :: real
  pitch :: real
  yaw :: real
  clip :: "bool option"

record planar_view =
  warps :: "warp_call list"
  writes :: "(channel \<times> string) list"

definition make_equi2pers :: "int option \<times> int option \<Rightarrow> real \<Rightarrow> equi2pers" where
  "make_equi2pers planar_image_size fov =
     \<lparr>height = snd planar_image_size, width = fst planar_image_size,
      fov_x = fov, mode = ''bilinear''\<rparr>"

text \<open>
  \<open>generate_planar_projections_from_equirectangular\<close>, the body of
  \<^verbatim>\<open>for u_deg, v_deg in yaw_pitch_pairs\<close> for the file \<open>i\<close> at position \<open>count\<close>.
  \<open>mask_dir\<close> and \<open>hdr_dir\<close> are \<open>None\<close> or a directory.
\<close>

definition project_direction ::
  "equi2pers \<Rightarrow> equi2pers \<Rightarrow> string \<Rightarrow> string option \<Rightarrow> string option \<Rightarrow> bool \<Rightarrow>
   string \<Rightarrow> nat \<Rightarrow> real \<times> real \<Rightarrow> planar_view" where
  "project_direction equi2pers equi2pers_hdr image_dir mask_dir hdr_dir is_HDR i count dir =
     (let u_deg = fst dir; v_deg = snd dir;
          v_rad = pi * v_deg / 180;
          u_rad = pi * u_deg / 180;
          output_dir = image_dir @ ''/planar_projections'';
          output_mask_dir = image_dir @ ''/mask_planar_projections'';
          output_hdr_dir = image_dir @ ''/hdr_planar_projections''
      in \<lparr>warps =
            [\<lparr>projector = equi2pers, equi = Image, roll = 0, pitch = v_rad, yaw = u_rad,
              clip = None\<rparr>] @
            (if mask_dir \<noteq> None
             then [\<lparr>projector = equi2pers_hdr, equi = Mask, roll = 0, pitch = v_rad, yaw = u_rad,
                    clip = None\<rparr>]
             else []) @
            (if hdr_dir \<noteq> None
             then [\<lparr>projector = equi2pers_hdr, equi = Hdr, roll = 0, pitch = v_rad, yaw = u_rad,
                    clip = Some False\<rparr>]
             else []),
          writes =
            [(Image, if is_exr i then planar_path output_dir i count ''.exr''
                     else planar_path output_dir i count ''.png'')] @
            (if mask_dir \<noteq> None then [(Mask, planar_path output_mask_dir i count ''.png'')]
             else []) @
            (if hdr_dir \<noteq> None
             then [(Hdr, if is_HDR then planar_path output_hdr_dir i count ''.exr''
                         else planar_path output_hdr_dir i count ''.png'')]
             else [])\<rparr>)"

text \<open>
  The projectors of that function (\<open>equi2pers_hdr\<close> falls back to \<open>equi2pers\<close> without an
  HDR directory) and its loop over the directions, \<open>count\<close> running from 0.
\<close>

definition project_panorama ::
  "int \<times> int \<Rightarrow> int option \<times> int option \<Rightarrow> real \<Rightarrow> string \<Rightarrow> string option \<Rightarrow>
   string option \<Rightarrow> bool \<Rightarrow> string \<Rightarrow> (real \<times> real) list \<Rightarrow> planar_view list" where
  "project_panorama planar_image_size HDR_planar_image_size fov image_dir mask_dir hdr_dir is_HDR
     i yaw_pitch_pairs =
     (let equi2pers =
            make_equi2pers (Some (fst planar_image_size), Some (snd planar_image_size)) fov;
          equi2pers_hdr =
            (if hdr_dir \<noteq> None then make_equi2pers HDR_planar_image_size fov else equi2pers)
      in map (\<lambda>(count, dir).
                project_direction equi2pers equi2pers_hdr image_dir mask_dir hdr_dir is_HDR i count dir)
           (enumerate 0 yaw_pitch_pairs))"

text \<open>
  \<open>generate_planar_projections_from_equirectangular_with_two_exposures\<close>: the body of the
  direction loop and the loop. All five channels go through the one projector.
\<close>

definition project_direction_two_exposures ::
  "equi2pers \<Rightarrow> string \<Rightarrow> string \<Rightarrow> nat \<Rightarrow> real \<times> real \<Rightarrow> planar_view" where
  "project_direction_two_exposures equi2pers image_dir i count dir =
     (let u_deg = fst dir; v_deg = snd dir;
          v_rad = pi * v_deg / 180;
          u_rad = pi * u_deg / 180;
          output_dir = image_dir @ ''/planar_projections'';
          output_mask_e1_dir = image_dir @ ''/mask_e1_planar_projections'';
          output_mask_e2_dir = image_dir @ ''/mask_e2_planar_projections'';
          output_e1_dir = image_dir @ ''/e1_planar_projections'';
          output_e2_dir = image_dir @ ''/e2_planar_projections''
      in \<lparr>warps =
            [\<lparr>projector = equi2pers, equi = Image, roll = 0, pitch = v_rad, yaw = u_rad,
              clip = None\<rparr>,
             \<lparr>projector = equi2pers, equi = MaskE1, roll = 0, pitch = v_rad, yaw = u_rad,
              clip = None\<rparr>,
             \<lparr>projector = equi2pers, equi = MaskE2, roll = 0, pitch = v_rad, yaw = u_rad,
              clip = None\<rparr>,
             \<lparr>projector = equi2pers, equi = E1, roll = 0, pitch = v_rad, yaw = u_rad,
              clip = Some False\<rparr>,
             \<lparr>projector = equi2pers, equi = E2, roll = 0, pitch = v_rad, yaw = u_rad,
              clip = Some False\<rparr>],
          writes =
            [(Image, if is_exr i then planar_path output_dir i count ''.exr''
                     else planar_path output_dir i count ''.png''),
             (MaskE1, planar_path output_mask_e1_dir i count ''.png''),
             (MaskE2, planar_path output_mask_e2_dir i count ''.png''),
             (E1, planar_path output_e1_dir i count ''.exr''),
             (E2, planar_path output_e2_dir i count ''.exr'')]\<rparr>)"

definition project_panorama_two_exposures ::
  "int \<times> int \<Rightarrow> real \<Rightarrow> string \<Rightarrow> string \<Rightarrow> (real \<times> real) list \<Rightarrow> planar_view list" where
  "project_panorama_two_exposures planar_image_size fov image_dir i yaw_pitch_pairs =
     (let equi2pers =
            make_equi2pers (Some (fst planar_image_size), Some (snd planar_image_size)) fov
      in map (\<lambda>(count, dir). project_direction_two_exposures equi2pers image_dir i count dir)
           (enumerate 0 yaw_pitch_pairs))"


text \<open>
  The companion files of one panorama in the standard function (the mask under
  \<open>mask_dir\<close>, the HDR raster under \<open>hdr_dir\<close>), checked before the direction loop;
  \<open>isfile\<close> is \<open>os.path.isfile\<close> on the file system of the run. A missing file or an
  unsupported extension raises and ends the batch.
\<close>

definition load_companions ::
  "(string \<Rightarrow> bool) \<Rightarrow> string option \<Rightarrow> string option \<Rightarrow> bool \<Rightarrow> string \<Rightarrow> error + unit" where
  "load_companions isfile mask_dir hdr_dir is_HDR i =
     (case (case mask_dir of
              None \<Rightarrow> Inr ()
            | Some m \<Rightarrow>
                if isfile (os_path_join m i) then Inr ()
                else Inl (Exception (''The corresponding mask for '' @ i @ '' does not exist!!!''))) of
        Inl e \<Rightarrow> Inl e
      | Inr _ \<Rightarrow>
          (case hdr_dir of
             None \<Rightarrow> Inr ()
           | Some h \<Rightarrow>
               (case (if is_HDR then exr_addr i (os_path_join h i) else Inr (os_path_join h i)) of
                  Inl e \<Rightarrow> Inl e
                | Inr hdr_addr \<Rightarrow>
                    if isfile hdr_addr then Inr ()
                    else Inl (Exception (''The corresponding HDR for '' @ i @ '' does not exist!!!'')))))"

text \<open>
  The companion files of one panorama in the two-exposure function, in the order of the
  source: mask E1, mask E2, exposure E1, exposure E2. The last message says \<open>e1\<close> in the
  source as well.
\<close>

definition load_companions_two_exposures ::
  "(string \<Rightarrow> bool) \<Rightarrow> string \<Rightarrow> string \<Rightarrow> string \<Rightarrow> string \<Rightarrow> string \<Rightarrow> error + unit" where
  "load_companions_two_exposures isfile mask_e1_dir mask_e2_dir e1_dir e2_dir i =
     (if isfile (replace (os_path_join mask_e1_dir i) ''.png'' ''_e1.png'') then
        if isfile (replace (os_path_join mask_e2_dir i) ''.png'' ''_e2.png'') then
          (case exr_addr i (os_path_join e1_dir i) of
             Inl e \<Rightarrow> Inl e
           | Inr e1_addr \<Rightarrow>
               if isfile (replace e1_addr ''.exr'' ''_e1.exr'') then
                 (case exr_addr i (os_path_join e2_dir i) of
                    Inl e \<Rightarrow> Inl e
                  | Inr e2_addr \<Rightarrow>
                      if isfile (replace e2_addr ''.exr'' ''_e2.exr'') then Inr ()
                      else Inl (Exception (''The corresponding e1 for '' @ i @ '' does not exist!!!'')))
               else Inl (Exception (''The corresponding e1 for '' @ i @ '' does not exist!!!'')))
        else Inl (Exception (''The corresponding mask E2 for '' @ i @ '' does not exist!!!''))
      else Inl (Exception (''The corresponding mask E1 for '' @ i @ '' does not exist!!!'')))"

text \<open>
  The loop over the directory listing,
  \<^verbatim>\<open>for i in os.listdir(frame_dir): if i.lower().endswith(...): ...\<close>, with the filter and
  the work on one file as arguments. The first exception ends the loop.
\<close>

fun project_files ::
  "(string \<Rightarrow> bool) \<Rightarrow> (string \<Rightarrow> error + planar_view list) \<Rightarrow> string list \<Rightarrow>
   error + (string \<times> planar_view list) list" where
  "project_files accepts project_file [] = Inr []"
| "project_files accepts project_file (i # listdir) =
     (if accepts i then
        (case project_file i of
           Inl e \<Rightarrow> Inl e
         | Inr views \<Rightarrow>
             (case project_files accepts project_file listdir of
                Inl e \<Rightarrow> Inl e
              | Inr out \<Rightarrow> Inr ((i, views) # out)))
      else project_files accepts project_file listdir)"

text \<open>
  The two functions as a whole, on a directory listing \<open>listdir\<close> and a file system
  \<open>isfile\<close>: range check and grid, then for each image file the companion checks and the
  direction loop. The result lists, per source file, the views rendered from it. Reading
  and decoding the rasters and creating the output directories are not modelled.
\<close>

definition generate_planar_projections_from_equirectangular ::
  "string list \<Rightarrow> (string \<Rightarrow> bool) \<Rightarrow> string \<Rightarrow> int \<times> int \<Rightarrow> int \<Rightarrow> string option \<Rightarrow>
   string option \<Rightarrow> crop_factor \<Rightarrow> bool \<Rightarrow> int option \<times> int option \<Rightarrow>
   error + (string \<times> planar_view list) list" where
  "generate_planar_projections_from_equirectangular listdir isfile image_dir planar_image_size
     samples_per_im mask_dir hdr_dir crop_factor is_HDR HDR_planar_image_size =
     (case build_yaw_pitch_pairs samples_per_im crop_factor of
        Inl e \<Rightarrow> Inl e
      | Inr (fov, yaw_pitch_pairs) \<Rightarrow>
          project_files is_equirect_image
            (\<lambda>i. case load_companions isfile mask_dir hdr_dir is_HDR i of
                    Inl e \<Rightarrow> Inl e
                  | Inr _ \<Rightarrow>
                      Inr (project_panorama planar_image_size HDR_planar_image_size fov
                             image_dir mask_dir hdr_dir is_HDR i yaw_pitch_pairs))
            listdir)"

definition generate_planar_projections_from_equirectangular_with_two_exposures ::
  "string list \<Rightarrow> (string \<Rightarrow> bool) \<Rightarrow> string \<Rightarrow> int \<times> int \<Rightarrow> int \<Rightarrow> string \<Rightarrow> string \<Rightarrow>
   string \<Rightarrow> string \<Rightarrow> crop_factor \<Rightarrow> error + (string \<times> planar_view list) list" where
  "generate_planar_projections_from_equirectangular_with_two_exposures listdir isfile image_dir
     planar_image_size samples_per_im mask_e1_dir mask_e2_dir e1_dir e2_dir crop_factor =
     (case build_yaw_pitch_pairs samples_per_im crop_factor of
        Inl e \<Rightarrow> Inl e
      | Inr (fov, yaw_pitch_pairs) \<Rightarrow>
          project_files is_ldr_image
            (\<lambda>i. case load_companions_two_exposures isfile mask_e1_dir mask_e2_dir e1_dir e2_dir i of
                    Inl e \<Rightarrow> Inl e
                  | Inr _ \<Rightarrow>
                      Inr (project_panorama_two_exposures planar_image_size fov image_dir i
                             yaw_pitch_pairs))
            listdir)"

section \<open>Pose derivation (ground-truth mode)\<close>

text \<open>
  A matrix is a list of rows, as the nested lists of the metadata file. The rotation
  constructor (\<open>scipy\<close>'s \<open>Rotation.from_euler('XYZ', [a, b, c]).as_matrix()\<close>, intrinsic
  rotations about x, then y, then z) and the inverse (\<open>numpy.linalg.inv\<close>) are library
  functions; they are modelled by what they compute on exact reals.
\<close>

type_synonym matrix = "real list list"

definition mat_mul :: "matrix \<Rightarrow> matrix \<Rightarrow> matrix" where
  "mat_mul A B =
     map (\<lambda>row. map (\<lambda>j. sum_list (map2 (*) row (map (\<lambda>r. r ! j) B)))
                    [0 ..< (case B of [] \<Rightarrow> 0 | b # _ \<Rightarrow> length b)]) A"

definition rot_x :: "real \<Rightarrow> matrix" where
  "rot_x a = [[1, 0, 0], [0, cos a, - sin a], [0, sin a, cos a]]"

definition rot_y :: "real \<Rightarrow> matrix" where
  "rot_y a = [[cos a, 0, sin a], [0, 1, 0], [- sin a, 0, cos a]]"

definition rot_z :: "real \<Rightarrow> matrix" where
  "rot_z a = [[cos a, - sin a, 0], [sin a, cos a, 0], [0, 0, 1]]"

definition from_euler_XYZ :: "real \<Rightarrow> real \<Rightarrow> real \<Rightarrow> matrix" where
  "from_euler_XYZ a b c = mat_mul (mat_mul (rot_x a) (rot_y b)) (rot_z c)"

text \<open>The inverse of a 3 by 3 matrix by cofactors; a singular matrix is an error.\<close>

definition inv_3x3 :: "matrix \<Rightarrow> error + matrix" where
  "inv_3x3 m =
     (let a = m ! 0 ! 0; b = m ! 0 ! 1; c = m ! 0 ! 2;
          d = m ! 1 ! 0; e = m ! 1 ! 1; f = m ! 1 ! 2;
          g = m ! 2 ! 0; h = m ! 2 ! 1; k = m ! 2 ! 2;
          det = a * (e * k - f * h) - b * (d * k - f * g) + c * (d * h - e * g)
      in if det = 0 then Inl LinAlgError
         else Inr [[(e * k - f * h) / det, (c * h - b * k) / det, (b * f - c * e) / det],
                   [(f * g - d * k) / det, (a * k - c * g) / det, (c * d - a * f) / det],
                   [(d * h - e * g) / det, (b * g - a * h) / det, (a * e - b * d) / det]])"

text \<open>\<open>A @ B\<close> on two-dimensional arrays: the inner dimensions must agree.\<close>

definition matmul :: "matrix \<Rightarrow> matrix \<Rightarrow> error + matrix" where
  "matmul A B =
     (if list_all (\<lambda>row. length row = length B) A then Inr (mat_mul A B) else Inl ValueError)"

text \<open>
  \<^verbatim>\<open>perspective_camera_pose = current_pano_camera_pose.copy()
perspective_camera_pose[:3, :3] = perspective_camera_rotation\<close>
\<close>

definition assign_block :: "matrix \<Rightarrow> matrix \<Rightarrow> matrix" where
  "assign_block pose rotation =
     map (\<lambda>(r, row). if r < 3 then rotation ! r @ drop 3 row else row) (enumerate 0 pose)"

definition perspective_camera_pose :: "matrix \<Rightarrow> real \<Rightarrow> real \<Rightarrow> error + matrix" where
  "perspective_camera_pose current_pano_camera_pose u_rad v_rad =
     (let current_pano_camera_rotation = map (take 3) (take 3 current_pano_camera_pose)
      in case inv_3x3 (from_euler_XYZ v_rad (- u_rad) 0) of
           Inl e \<Rightarrow> Inl e
         | Inr perspective_camera_rotation \<Rightarrow>
             (case matmul current_pano_camera_rotation perspective_camera_rotation of
                Inl e \<Rightarrow> Inl e
              | Inr perspective_camera_rotation' \<Rightarrow>
                  Inr (assign_block current_pano_camera_pose perspective_camera_rotation')))"

section \<open>Ground-truth frames\<close>

record frame =
  file_path :: string
  transform_matrix :: matrix
  exposure :: "real option"
  mask_path :: "string option"

record gt_view = planar_view +
  frame :: frame

text \<open>
  \<open>generate_planar_projections_from_equirectangular_GT\<close>, the body of the direction loop.
  \<open>mask_bound\<close> says whether the local variable \<open>mask\<close> has been assigned: the source
  reads it under \<open>mask_dir is not None\<close> and assigns it only later, under \<open>use_mask\<close>.
  The exposure is set in the \<open>.exr\<close> branch only.
\<close>

definition project_direction_GT ::
  "equi2pers \<Rightarrow> string \<Rightarrow> string option \<Rightarrow> bool \<Rightarrow> bool \<Rightarrow> bool \<Rightarrow> bool \<Rightarrow>
   string \<Rightarrow> matrix \<Rightarrow> nat \<Rightarrow> real \<times> real \<Rightarrow> error + gt_view" where
  "project_direction_GT equi2pers image_dir mask_dir clip_output use_mask use_exposure mask_bound
     i current_pano_camera_pose count dir =
     (let u_deg = fst dir; v_deg = snd dir;
          v_rad = pi * v_deg / 180;
          u_rad = pi * u_deg / 180;
          output_dir = image_dir @ ''/planar_projections'';
          output_mask_dir = (if use_mask then image_dir @ ''/mask/planar_projections'' else [])
      in if mask_dir \<noteq> None \<and> \<not> mask_bound then Inl UnboundLocalError
         else case perspective_camera_pose current_pano_camera_pose u_rad v_rad of
           Inl e \<Rightarrow> Inl e
         | Inr pose \<Rightarrow>
             Inr \<lparr>warps =
                    [\<lparr>projector = equi2pers, equi = Image, roll = 0, pitch = v_rad, yaw = u_rad,
                      clip = Some clip_output\<rparr>] @
                    (if mask_dir \<noteq> None
                     then [\<lparr>projector = equi2pers, equi = Mask, roll = 0, pitch = v_rad,
                            yaw = u_rad, clip = None\<rparr>]
                     else []) @
                    (if use_mask
                     then [\<lparr>projector = equi2pers, equi = Mask, roll = 0, pitch = v_rad,
                            yaw = u_rad, clip = None\<rparr>]
                     else []),
                  writes =
                    [(Image, if is_exr i then planar_path output_dir i count ''.exr''
                             else planar_path output_dir i count ''.png'')] @
                    (if use_mask then [(Mask, planar_path output_mask_dir i count ''.png'')]
                     else []),
                  frame =
                    \<lparr>file_path = (if is_exr i then planar_path output_dir i count ''.exr''
                                  else planar_path output_dir i count ''.png''),
                     transform_matrix = pose,
                     exposure =
                       (if is_exr i \<and> use_exposure
                        then Some (if take 3 i = ''rhs'' then 0.009 else 1.0)
                        else None),
                     mask_path =
                       (if use_mask then Some (planar_path output_mask_dir i count ''.png'')
                        else None)\<rparr>\<rparr>)"

text \<open>The direction loop of one file; an error ends it, as the exception would.\<close>

fun project_directions_GT ::
  "equi2pers \<Rightarrow> string \<Rightarrow> string option \<Rightarrow> bool \<Rightarrow> bool \<Rightarrow> bool \<Rightarrow> bool \<Rightarrow>
   string \<Rightarrow> matrix \<Rightarrow> nat \<Rightarrow> (real \<times> real) list \<Rightarrow> error + bool \<times> gt_view list" where
  "project_directions_GT equi2pers image_dir mask_dir clip_output use_mask use_exposure mask_bound
     i current_pano_camera_pose count [] = Inr (mask_bound, [])"
| "project_directions_GT equi2pers image_dir mask_dir clip_output use_mask use_exposure mask_bound
     i current_pano_camera_pose count (dir # rest) =
     (case project_direction_GT equi2pers image_dir mask_dir clip_output use_mask use_exposure
             mask_bound i current_pano_camera_pose count dir of
        Inl e \<Rightarrow> Inl e
      | Inr view \<Rightarrow>
          (case project_directions_GT equi2pers image_dir mask_dir clip_output use_mask
                  use_exposure (mask_bound \<or> use_mask) i current_pano_camera_pose (Suc count) rest of
             Inl e \<Rightarrow> Inl e
           | Inr (mask_bound', views) \<Rightarrow> Inr (mask_bound', view # views)))"

text \<open>
  The loop over \<open>files_list\<close> (the sorted directory listing, an input here). The pose of
  a panorama is looked up under \<open>i[:-4]\<close>; a missing key is a \<open>KeyError\<close>. Each frame is
  returned with the name of its source file.
\<close>

fun project_files_GT ::
  "(string \<rightharpoonup> matrix) \<Rightarrow> equi2pers \<Rightarrow> string \<Rightarrow> string option \<Rightarrow> bool \<Rightarrow> bool \<Rightarrow> bool \<Rightarrow>
   (real \<times> real) list \<Rightarrow> bool \<Rightarrow> string list \<Rightarrow> error + (string \<times> gt_view) list" where
  "project_files_GT camera_to_worlds_panos equi2pers image_dir mask_dir clip_output use_mask
     use_exposure yaw_pitch_pairs mask_bound [] = Inr []"
| "project_files_GT camera_to_worlds_panos equi2pers image_dir mask_dir clip_output use_mask
     use_exposure yaw_pitch_pairs mask_bound (i # files_list) =
     (if is_equirect_image i then
        (case camera_to_worlds_panos (take (length i - 4) i) of
           None \<Rightarrow> Inl KeyError
         | Some current_pano_camera_pose \<Rightarrow>
             (case project_directions_GT equi2pers image_dir mask_dir clip_output use_mask
                     use_exposure mask_bound i current_pano_camera_pose 0 yaw_pitch_pairs of
                Inl e \<Rightarrow> Inl e
              | Inr (mask_bound', views) \<Rightarrow>
                  (case project_files_GT camera_to_worlds_panos equi2pers image_dir mask_dir
                          clip_output use_mask use_exposure yaw_pitch_pairs mask_bound' files_list of
                     Inl e \<Rightarrow> Inl e
                   | Inr frames \<Rightarrow> Inr (map (Pair i) views @ frames))))
      else project_files_GT camera_to_worlds_panos equi2pers image_dir mask_dir clip_output
             use_mask use_exposure yaw_pitch_pairs mask_bound files_list)"

section \<open>Verified properties\<close>

subsection \<open>Evaluation helpers\<close>

lemma sub_lower_numeral [simp]:
  "sub_lower i (numeral k) d arr = sub_lower i (Suc (pred_numeral k)) d arr"
  by (simp add: numeral_eq_Suc)

lemma arange_full_60: "arange (- 180) 180 60 = [- 180, - 120, - 60, 0, 60, 120]"
  by (simp add: arange_def upt_rec)

lemma arange_full_90: "arange (- 180) 180 90 = [- 180, - 90, 0, 90]"
  by (simp add: arange_def upt_rec)

lemma arange_full_180: "arange (- 180) 180 180 = [- 180, 0]"
  by (simp add: arange_def upt_rec)

subsection \<open>A removed ring stops the top pass\<close>

lemma add_higher_None:
  "j \<le> k \<Longrightarrow> k < length arr \<Longrightarrow> arr ! k = None \<Longrightarrow> add_higher i j d arr = Inl TypeError"
proof (induction i j d arr rule: add_higher.induct)
  case (1 i j d arr)
  then have jl: "j < length arr" by simp
  show ?case
  proof (cases "arr ! j")
    case None
    with jl show ?thesis by (subst add_higher.simps) simp
  next
    case (Some x)
    with 1 have "j \<noteq> k" by auto
    with 1 have k: "Suc j \<le> k" by simp
    let ?arr = "arr[j := Some (x + d / 2 ^ (j - i))]"
    from \<open>j \<noteq> k\<close> 1 have "k < length ?arr" "?arr ! k = None" by simp_all
    with 1(1)[OF jl Some k] have "add_higher i (Suc j) d ?arr = Inl TypeError" by blast
    with jl Some show ?thesis by (subst add_higher.simps) simp
  qed
qed

lemma crop_top_loop_None:
  "i \<le> k \<Longrightarrow> k < length arr \<Longrightarrow> arr ! k = None \<Longrightarrow> crop_top_loop s fov i arr = Inl TypeError"
proof (induction s fov i arr rule: crop_top_loop.induct)
  case (1 s fov i arr)
  then have il: "i < length arr" by simp
  show ?case
  proof (cases "arr ! i")
    case None
    with il show ?thesis by (subst crop_top_loop.simps) simp
  next
    case (Some x)
    with 1 have ne: "i \<noteq> k" by auto
    with 1 have k: "Suc i \<le> k" by simp
    consider (rm) "x < s - fov / 2" | (clamp) "\<not> x < s - fov / 2" "x < s"
      | (keep) "\<not> x < s - fov / 2" "\<not> x < s" by blast
    then show ?thesis
    proof cases
      case rm
      from ne 1 have "k < length (arr[i := None])" "arr[i := None] ! k = None" by simp_all
      with 1(1)[OF il Some rm k] have "crop_top_loop s fov (Suc i) (arr[i := None]) = Inl TypeError"
        by blast
      with il Some rm show ?thesis by (subst crop_top_loop.simps) simp
    next
      case clamp
      from ne 1 have "k < length (arr[i := Some s])" "arr[i := Some s] ! k = None" by simp_all
      with k have "add_higher i (Suc i) (s - x) (arr[i := Some s]) = Inl TypeError"
        by (rule add_higher_None)
      with il Some clamp show ?thesis by (subst crop_top_loop.simps) simp
    next
      case keep
      from 1(2)[OF il Some keep k] 1 have "crop_top_loop s fov (Suc i) arr = Inl TypeError"
        by blast
      with il Some keep show ?thesis by (subst crop_top_loop.simps) simp
    qed
  qed
qed

lemma crop_top_None: "None \<in> set arr \<Longrightarrow> crop_top arr fov f = Inl TypeError"
  unfolding crop_top_def Let_def in_set_conv_nth
  using crop_top_loop_None [of 0] by (metis le0)

subsection \<open>The bottom and top passes\<close>

text \<open>
  Claim C1. On an ascending three-entry list \<open>(a, b, c)\<close> the bottom pass, with
  \<open>start = 90 - 180 f - F / 2\<close>, never fails and works from the highest index down: an
  entry above \<open>start + F / 2\<close> is removed and the scan goes on; the first entry above
  \<open>start\<close> is clamped to \<open>start\<close> and \<open>diff = entry - start\<close> is taken off each lower
  entry as \<open>diff / 2 ^ gap\<close>, which ends the scan; entries at or below \<open>start\<close> stay.
  Bottom crop \<open>0.2\<close> with \<open>F = 120\<close> on \<open>(-45, 0, 45)\<close> gives
  \<open>(-57.75, -25.5, -6)\<close>, nothing removed.
\<close>

theorem crop_bottom_three:
  assumes "a \<le> b" and "b \<le> c"
  shows "crop_bottom [Some a, Some b, Some c] F f =
    (let start = 90 - 180 * f - F / 2 in
     Inr (if c > start + F / 2 then
            (if b > start + F / 2 then
               (if a > start + F / 2 then [None, None, None]
                else if a > start then [Some start, None, None]
                else [Some a, None, None])
             else if b > start then [Some (a - (b - start) / 2 ^ 1), Some start, None]
             else [Some a, Some b, None])
          else if c > start then
            [Some (a - (c - start) / 2 ^ 2), Some (b - (c - start) / 2 ^ 1), Some start]
          else [Some a, Some b, Some c]))
    \<and> crop_bottom [Some (- 45), Some 0, Some 45] 120 (2 / 10) =
        Inr [Some (- 57.75), Some (- 25.5), Some (- 6)]"
  using assms by (simp add: crop_bottom_def Let_def)

theorem crop_bottom_three_witness:
  "crop_bottom [Some (- 45), Some 0, Some 45] 120 (3 / 10) = Inr [Some (- 57), Some (- 24), None]"
  using crop_bottom_three [of "- 45" 0 45 120 "3 / 10"] by simp

text \<open>
  Claim C6. On an ascending three-entry list \<open>(a, b, c)\<close> the top pass, with
  \<open>start = -90 + 180 f + F / 2\<close>, mirrors the bottom pass from the lowest index up: an
  entry below \<open>start - F / 2\<close> is removed and the scan goes on; the first entry below
  \<open>start\<close> is raised to \<open>start\<close> and \<open>diff = start - entry\<close> is added to each higher
  entry as \<open>diff / 2 ^ gap\<close>, which ends the scan. Top crop \<open>0.2\<close> with \<open>F = 120\<close> on
  \<open>(-45, 0, 45)\<close> gives \<open>(6, 25.5, 57.75)\<close>.
\<close>

theorem crop_top_three:
  assumes "a \<le> b" and "b \<le> c"
  shows "crop_top [Some a, Some b, Some c] F f =
    (let start = - 90 + 180 * f + F / 2 in
     Inr (if a < start - F / 2 then
            (if b < start - F / 2 then
               (if c < start - F / 2 then [None, None, None]
                else if c < start then [None, None, Some start]
                else [None, None, Some c])
             else if b < start then [None, Some start, Some (c + (start - b) / 2 ^ 1)]
             else [None, Some b, Some c])
          else if a < start then
            [Some start, Some (b + (start - a) / 2 ^ 1), Some (c + (start - a) / 2 ^ 2)]
          else [Some a, Some b, Some c]))
    \<and> crop_top [Some (- 45), Some 0, Some 45] 120 (2 / 10) =
        Inr [Some 6, Some 25.5, Some 57.75]"
  using assms by (simp add: crop_top_def Let_def)

theorem crop_top_three_witness:
  "crop_top [Some (- 45), Some 0, Some 45] 120 (3 / 10) = Inr [None, Some 24, Some 57]"
  using crop_top_three [of "- 45" 0 45 120 "3 / 10"] by simp

text \<open>
  Claim C10. The top pass fails on every list that holds a removed entry: its scan either
  compares the removed entry or, after a clamp, adds to it. So when both the bottom and the
  top fraction are positive and the bottom pass has removed a ring, the vertical crop ends
  in a type error; it returns bounds only if the bottom pass removed nothing.
\<close>

theorem crop_top_after_removal_fails:
  assumes "c1 > 0" and "c0 > 0"
    and "crop_bottom bound_arr fov c1 = Inr b" and "None \<in> set b"
  shows "crop_top b fov c0 = Inl TypeError
    \<and> crop_bound_arr_vertical bound_arr fov (c0, c1, c2, c3) = Inl TypeError"
  using assms by (simp add: crop_top_None)

theorem crop_top_after_removal_fails_witness:
  "crop_bound_arr_vertical [Some (- 45), Some 0, Some 45] 120 (1 / 10, 3 / 10, 0, 0) = Inl TypeError"
  using crop_top_after_removal_fails
    [of "3 / 10" "1 / 10" "[Some (- 45), Some 0, Some 45]" 120 "[Some (- 57), Some (- 24), None]" 0 0]
  by (simp add: crop_bottom_def)

subsection \<open>The sample grid\<close>

text \<open>
  Claim C2. With all crop fractions zero, preset 8 gives exactly 8 directions and preset 14
  exactly 14: the middle ring (pitch 0) first, then the upper ring (pitch 45), then the
  lower ring (pitch -45), each with its yaws stepped from -180 up to, not including, 180
  (steps 90 and 180 for preset 8, 60 and 90 for preset 14).
\<close>

theorem build_yaw_pitch_pairs_zero_crop:
  "build_yaw_pitch_pairs 8 (0, 0, 0, 0) =
     Inr (120, [(- 180, 0), (- 90, 0), (0, 0), (90, 0),
                (- 180, 45), (0, 45),
                (- 180, - 45), (0, - 45)])
   \<and> build_yaw_pitch_pairs 14 (0, 0, 0, 0) =
     Inr (110, [(- 180, 0), (- 120, 0), (- 60, 0), (0, 0), (60, 0), (120, 0),
                (- 180, 45), (- 90, 45), (0, 45), (90, 45),
                (- 180, - 45), (- 90, - 45), (0, - 45), (90, - 45)])"
  by (simp add: build_yaw_pitch_pairs_def ring_pairs_def arange_full_60 arange_full_90 arange_full_180)

subsection \<open>Pose derivation\<close>

lemma from_euler_XYZ_z0:
  "from_euler_XYZ a b 0 =
     [[cos b, 0, sin b],
      [sin a * sin b, cos a, - (sin a * cos b)],
      [- (cos a * sin b), sin a, cos a * cos b]]"
  by (simp add: from_euler_XYZ_def mat_mul_def rot_x_def rot_y_def rot_z_def)

lemma sin_sq: "sin x * sin x = 1 - cos x * cos (x::real)"
  using sin_cos_squared_add [of x] by (simp add: power2_eq_square algebra_simps)

lemma sin_sq_mult: "sin x * (sin x * t) = t - cos x * (cos x * (t::real))"
proof -
  have "sin x * (sin x * t) = (sin x * sin x) * t" by simp
  also have "\<dots> = (1 - cos x * cos x) * t" by (simp only: sin_sq)
  also have "\<dots> = t - cos x * (cos x * t)" by (simp add: algebra_simps)
  finally show ?thesis .
qed

lemma det_euler:
  "cos b * (cos a * (cos a * cos b) - - (sin a * cos b) * sin a)
     - 0 * (sin a * sin b * (cos a * cos b) - - (sin a * cos b) * - (cos a * sin b))
     + sin b * (sin a * sin b * sin a - cos a * - (cos a * sin b)) = (1::real)"
  by (simp add: algebra_simps sin_sq sin_sq_mult)

lemma inv_euler:
  "inv_3x3 (from_euler_XYZ a b 0) =
     Inr [[cos b, sin a * sin b, - (cos a * sin b)],
          [0, cos a, sin a],
          [sin b, - (sin a * cos b), cos a * cos b]]"
  unfolding from_euler_XYZ_z0 inv_3x3_def Let_def
  apply (simp only: nth_Cons_0 nth_Cons_Suc One_nat_def numeral_2_eq_2 det_euler)
  apply (simp add: algebra_simps sin_sq sin_sq_mult)
  done







lemma pose_at_zero:
  assumes P: "P = [[p00, p01, p02, p03], [p10, p11, p12, p13], [p20, p21, p22, p23], [p30, p31, p32, p33 :: real]]"
  shows "perspective_camera_pose P 0 0 = Inr P"
  unfolding perspective_camera_pose_def Let_def
  using inv_euler [of 0 0] by (simp add: P matmul_def mat_mul_def assign_block_def)



subsection \<open>Horizontal bounds, presets and reprojection\<close>

lemma arange_bounds:
  assumes "0 < step" and "y \<in> set (arange start stop step)"
  shows "start \<le> y \<and> y < stop"
proof -
  from assms(2) obtain k where k: "k < nat \<lceil>(stop - start) / step\<rceil>" and y: "y = start + real k * step"
    by (auto simp: arange_def)
  from k have "int k < \<lceil>(stop - start) / step\<rceil>" by simp
  then have "real k < (stop - start) / step" by (simp add: less_ceiling_iff)
  with assms(1) have "real k * step < stop - start" by (simp add: pos_less_divide_eq)
  moreover from assms(1) have "0 \<le> real k * step" by simp
  ultimately show ?thesis using y by simp
qed

lemma ring_pairs_bounds:
  "0 < step \<Longrightarrow> (y, p) \<in> set (ring_pairs l r step b) \<Longrightarrow> l \<le> y \<and> y < r"
  by (auto simp: ring_pairs_def dest: arange_bounds split: option.splits)

lemma grid_bounds:
  assumes "build_yaw_pitch_pairs samples_per_im crop_factor = Inr (fov, pairs)"
    and "(y, p) \<in> set pairs" and "yaw_bounds crop_factor = (l, r)"
  shows "l \<le> y \<and> y < r"
proof -
  have pos: "(0::real) < 90" "(0::real) < 180" "(0::real) < 60" by simp_all
  show ?thesis
    using assms unfolding build_yaw_pitch_pairs_def
    by (auto simp del: crop_bound_arr_vertical.simps yaw_bounds.simps
          split: if_splits sum.splits dest: ring_pairs_bounds [OF pos(1)]
            ring_pairs_bounds [OF pos(2)] ring_pairs_bounds [OF pos(3)])
qed

text \<open>
  Claim C5, as the code has it. With the crop fractions in the order (top, bottom, left,
  right), the lower yaw bound \<open>left_bound\<close> is \<open>-180 + 360 * right\<close> when the right
  fraction is positive (else -180), and the upper yaw bound \<open>right_bound\<close> is
  \<open>180 - 360 * left\<close> when the left fraction is positive (else 180); every yaw of the
  sample grid lies from the lower bound up to, not including, the upper bound.
\<close>

theorem yaw_bounds_from_opposite_side:
  "yaw_bounds (crop_top_f, crop_bottom_f, crop_left_f, crop_right_f) =
     (if crop_right_f > 0 then - 180 + 360 * crop_right_f else - 180,
      if crop_left_f > 0 then 180 - 360 * crop_left_f else 180)
   \<and> (\<forall>fov pairs y p.
        build_yaw_pitch_pairs samples_per_im (crop_top_f, crop_bottom_f, crop_left_f, crop_right_f) = Inr (fov, pairs)
        \<longrightarrow> (y, p) \<in> set pairs
        \<longrightarrow> (if crop_right_f > 0 then - 180 + 360 * crop_right_f else - 180) \<le> y
          \<and> y < (if crop_left_f > 0 then 180 - 360 * crop_left_f else 180))"
proof -
  let ?l = "if crop_right_f > 0 then - 180 + 360 * crop_right_f else - 180"
  let ?r = "if crop_left_f > 0 then 180 - 360 * crop_left_f else 180"
  have yb: "yaw_bounds (crop_top_f, crop_bottom_f, crop_left_f, crop_right_f) = (?l, ?r)"
    by simp
  show ?thesis using grid_bounds [OF _ _ yb] yb by blast
qed

theorem yaw_bounds_from_opposite_side_witness:
  "build_yaw_pitch_pairs 8 (0, 0, 1 / 4, 0) =
     Inr (120, [(- 180, 0), (- 90, 0), (0, 0), (- 180, 45), (0, 45), (- 180, - 45), (0, - 45)])
   \<and> - 180 \<le> (0::real) \<and> (0::real) < 90"
proof -
  have g: "build_yaw_pitch_pairs 8 (0, 0, 1 / 4, 0) =
     Inr (120, [(- 180, 0), (- 90, 0), (0, 0), (- 180, 45), (0, 45), (- 180, - 45), (0, - 45)])"
    by (simp add: build_yaw_pitch_pairs_def ring_pairs_def arange_def upt_rec)
  have m: "(0, 45) \<in> set [(- 180, 0), (- 90, 0), (0, 0), (- 180, 45), (0, 45), (- 180, - 45), (0, - 45 :: real)]"
    by simp
  from yaw_bounds_from_opposite_side [of 0 0 "1 / 4" 0 8] g m show ?thesis by simp
qed

text \<open>
  The bounds as the specification words them differ from the code's: with a left crop of
  one quarter and no right crop the code keeps the lower bound at -180 and moves the upper
  bound to 90, where the specification has -90 and 180.
\<close>

theorem yaw_bounds_differ_from_spec: "yaw_bounds (0, 0, 1 / 4, 0) \<noteq> yaw_bounds_spec (0, 0, 1 / 4, 0)"
  by simp

lemma project_files_member:
  assumes "project_files accepts project_file listdir = Inr out" and "(i, views) \<in> set out"
  shows "i \<in> set listdir \<and> accepts i \<and> project_file i = Inr views"
  using assms
proof (induction listdir arbitrary: out)
  case Nil
  then show ?case by simp
next
  case (Cons f listdir)
  show ?case
  proof (cases "accepts f")
    case False
    with Cons.prems(1) have "project_files accepts project_file listdir = Inr out" by simp
    from Cons.IH [OF this Cons.prems(2)] show ?thesis by simp
  next
    case True
    with Cons.prems(1) obtain vs rest where
      f: "project_file f = Inr vs"
      and r: "project_files accepts project_file listdir = Inr rest"
      and out: "out = (f, vs) # rest"
      by (auto split: sum.splits)
    from Cons.prems(2) out consider "i = f" "views = vs" | "(i, views) \<in> set rest" by auto
    then show ?thesis
    proof cases
      case 1
      with True f show ?thesis by simp
    next
      case 2
      from Cons.IH [OF r 2] show ?thesis by simp
    qed
  qed
qed

lemma project_files_total:
  "project_files accepts (\<lambda>i. Inr (f i)) listdir = Inr (map (\<lambda>i. (i, f i)) (filter accepts listdir))"
  by (induction listdir) simp_all

lemma load_companions_ok:
  assumes "load_companions isfile mask_dir hdr_dir is_HDR i = Inr u"
  shows "(\<forall>m. mask_dir = Some m \<longrightarrow> isfile (os_path_join m i))
    \<and> (\<forall>h. hdr_dir = Some h \<longrightarrow>
          (\<exists>hdr_addr. (if is_HDR then exr_addr i (os_path_join h i) else Inr (os_path_join h i))
                         = Inr hdr_addr \<and> isfile hdr_addr))"
  using assms
  by (auto simp: load_companions_def split: option.splits sum.splits if_splits)

lemma load_companions_two_exposures_ok:
  assumes "load_companions_two_exposures isfile mask_e1_dir mask_e2_dir e1_dir e2_dir i = Inr u"
  shows "isfile (replace (os_path_join mask_e1_dir i) ''.png'' ''_e1.png'')
    \<and> isfile (replace (os_path_join mask_e2_dir i) ''.png'' ''_e2.png'')
    \<and> (\<exists>e1_addr. exr_addr i (os_path_join e1_dir i) = Inr e1_addr
          \<and> isfile (replace e1_addr ''.exr'' ''_e1.exr''))
    \<and> (\<exists>e2_addr. exr_addr i (os_path_join e2_dir i) = Inr e2_addr
          \<and> isfile (replace e2_addr ''.exr'' ''_e2.exr''))"
  using assms
  by (auto simp: load_companions_two_exposures_def split: sum.splits if_splits)

lemma generate_member:
  assumes "generate_planar_projections_from_equirectangular listdir isfile image_dir
             planar_image_size samples_per_im mask_dir hdr_dir crop_factor is_HDR
             HDR_planar_image_size = Inr out"
    and "(i, views) \<in> set out"
  shows "\<exists>fov pairs u.
           build_yaw_pitch_pairs samples_per_im crop_factor = Inr (fov, pairs)
         \<and> is_equirect_image i
         \<and> load_companions isfile mask_dir hdr_dir is_HDR i = Inr u
         \<and> views = project_panorama planar_image_size HDR_planar_image_size fov image_dir
                     mask_dir hdr_dir is_HDR i pairs"
proof -
  from assms(1) obtain fov pairs where
    b: "build_yaw_pitch_pairs samples_per_im crop_factor = Inr (fov, pairs)"
    and p: "project_files is_equirect_image
          (\<lambda>i. case load_companions isfile mask_dir hdr_dir is_HDR i of
                  Inl e \<Rightarrow> Inl e
                | Inr _ \<Rightarrow>
                    Inr (project_panorama planar_image_size HDR_planar_image_size fov
                           image_dir mask_dir hdr_dir is_HDR i pairs))
          listdir = Inr out"
    by (auto simp: generate_planar_projections_from_equirectangular_def split: sum.splits)
  from project_files_member [OF p assms(2)] b show ?thesis
    by (auto split: sum.splits)
qed

lemma generate_two_exposures_member:
  assumes "generate_planar_projections_from_equirectangular_with_two_exposures listdir isfile
             image_dir planar_image_size samples_per_im mask_e1_dir mask_e2_dir e1_dir e2_dir
             crop_factor = Inr out"
    and "(i, views) \<in> set out"
  shows "\<exists>fov pairs u.
           build_yaw_pitch_pairs samples_per_im crop_factor = Inr (fov, pairs)
         \<and> is_ldr_image i
         \<and> load_companions_two_exposures isfile mask_e1_dir mask_e2_dir e1_dir e2_dir i = Inr u
         \<and> views = project_panorama_two_exposures planar_image_size fov image_dir i pairs"
proof -
  from assms(1) obtain fov pairs where
    b: "build_yaw_pitch_pairs samples_per_im crop_factor = Inr (fov, pairs)"
    and p: "project_files is_ldr_image
          (\<lambda>i. case load_companions_two_exposures isfile mask_e1_dir mask_e2_dir e1_dir e2_dir i of
                  Inl e \<Rightarrow> Inl e
                | Inr _ \<Rightarrow>
                    Inr (project_panorama_two_exposures planar_image_size fov image_dir i pairs))
          listdir = Inr out"
    by (auto simp: generate_planar_projections_from_equirectangular_with_two_exposures_def
          split: sum.splits)
  from project_files_member [OF p assms(2)] b show ?thesis
    by (auto split: sum.splits)
qed

lemma build_unsupported:
  assumes "samples_per_im \<noteq> 8" and "samples_per_im \<noteq> 14"
    and "\<not> crop_factor_out_of_range crop_factor"
  shows "build_yaw_pitch_pairs samples_per_im crop_factor = Inr (120, [])"
  using assms by (simp add: build_yaw_pitch_pairs_def split: prod.splits)

lemma project_files_GT_no_directions:
  "project_files_GT camera_to_worlds_panos equi2pers image_dir mask_dir clip_output use_mask
     use_exposure [] mask_bound files_list = Inr frames \<Longrightarrow> frames = []"
proof (induction files_list arbitrary: frames)
  case Nil
  then show ?case by simp
next
  case (Cons f files_list)
  then show ?case by (auto split: if_splits option.splits sum.splits)
qed

text \<open>
  Claim C7. With the crop fractions in their range \<open>[0, 1]\<close>, a preset other than 8 and
  14 makes the grid builder return, without an error, the initial field of view and an
  empty direction list. A run without companion directories then ends without an error
  and with no view for any panorama, and whenever a run of either function (or of the
  ground-truth file loop on the empty list) ends without an error, no panorama has a view.
\<close>

theorem unsupported_preset_empty_grid:
  assumes "samples_per_im \<noteq> 8" and "samples_per_im \<noteq> 14"
    and "0 \<le> c0 \<and> c0 \<le> 1" and "0 \<le> c1 \<and> c1 \<le> 1"
    and "0 \<le> c2 \<and> c2 \<le> 1" and "0 \<le> c3 \<and> c3 \<le> 1"
  shows "build_yaw_pitch_pairs samples_per_im (c0, c1, c2, c3) = Inr (120, [])
    \<and> generate_planar_projections_from_equirectangular listdir isfile image_dir
        planar_image_size samples_per_im None None (c0, c1, c2, c3) is_HDR HDR_planar_image_size
        = Inr (map (\<lambda>i. (i, [])) (filter is_equirect_image listdir))
    \<and> (\<forall>out i views.
          generate_planar_projections_from_equirectangular listdir isfile image_dir
            planar_image_size samples_per_im mask_dir hdr_dir (c0, c1, c2, c3) is_HDR
            HDR_planar_image_size = Inr out
          \<longrightarrow> (i, views) \<in> set out \<longrightarrow> views = [])
    \<and> (\<forall>out i views.
          generate_planar_projections_from_equirectangular_with_two_exposures listdir isfile
            image_dir planar_image_size samples_per_im mask_e1_dir mask_e2_dir e1_dir e2_dir
            (c0, c1, c2, c3) = Inr out
          \<longrightarrow> (i, views) \<in> set out \<longrightarrow> views = [])
    \<and> (\<forall>frames.
          project_files_GT camera_to_worlds_panos equi2pers image_dir mask_dir clip_output
            use_mask use_exposure [] mask_bound files_list = Inr frames
          \<longrightarrow> frames = [])"
proof -
  from assms(3-6) have r: "\<not> crop_factor_out_of_range (c0, c1, c2, c3)" by auto
  have b: "build_yaw_pitch_pairs samples_per_im (c0, c1, c2, c3) = Inr (120, [])"
    using assms(1,2) r by (rule build_unsupported)
  have g: "generate_planar_projections_from_equirectangular listdir isfile image_dir
        planar_image_size samples_per_im None None (c0, c1, c2, c3) is_HDR HDR_planar_image_size
        = Inr (map (\<lambda>i. (i, [])) (filter is_equirect_image listdir))"
    by (simp add: generate_planar_projections_from_equirectangular_def b load_companions_def
          project_panorama_def project_files_total)
  have s: "\<forall>out i views.
          generate_planar_projections_from_equirectangular listdir isfile image_dir
            planar_image_size samples_per_im mask_dir hdr_dir (c0, c1, c2, c3) is_HDR
            HDR_planar_image_size = Inr out
          \<longrightarrow> (i, views) \<in> set out \<longrightarrow> views = []"
  proof (intro allI impI)
    fix out i views
    assume "generate_planar_projections_from_equirectangular listdir isfile image_dir
            planar_image_size samples_per_im mask_dir hdr_dir (c0, c1, c2, c3) is_HDR
            HDR_planar_image_size = Inr out" and "(i, views) \<in> set out"
    from generate_member [OF this] b show "views = []"
      by (auto simp: project_panorama_def)
  qed
  have t: "\<forall>out i views.
          generate_planar_projections_from_equirectangular_with_two_exposures listdir isfile
            image_dir planar_image_size samples_per_im mask_e1_dir mask_e2_dir e1_dir e2_dir
            (c0, c1, c2, c3) = Inr out
          \<longrightarrow> (i, views) \<in> set out \<longrightarrow> views = []"
  proof (intro allI impI)
    fix out i views
    assume "generate_planar_projections_from_equirectangular_with_two_exposures listdir isfile
            image_dir planar_image_size samples_per_im mask_e1_dir mask_e2_dir e1_dir e2_dir
            (c0, c1, c2, c3) = Inr out" and "(i, views) \<in> set out"
    from generate_two_exposures_member [OF this] b show "views = []"
      by (auto simp: project_panorama_two_exposures_def)
  qed
  from b g s t project_files_GT_no_directions show ?thesis by blast
qed

theorem unsupported_preset_empty_grid_witness:
  "build_yaw_pitch_pairs 10 (0, 1 / 5, 0, 1) = Inr (120, [])
   \<and> generate_planar_projections_from_equirectangular [''a.png'', ''notes.txt'', ''b.JPG'']
        (\<lambda>p. False) ''data'' (8, 8) 10 None None (0, 1 / 5, 0, 1) False (None, None)
        = Inr [(''a.png'', []), (''b.JPG'', [])]"
proof -
  have f: "filter is_equirect_image [''a.png'', ''notes.txt'', ''b.JPG''] = [''a.png'', ''b.JPG'']"
    by (simp add: is_equirect_image_def endswith_def lower_def lower_char_def)
  have p: "(10::int) \<noteq> 8" "(10::int) \<noteq> 14" "(0::real) \<le> 0 \<and> (0::real) \<le> 1"
    "(0::real) \<le> 1 / 5 \<and> (1 / 5 :: real) \<le> 1" "(0::real) \<le> 1 \<and> (1::real) \<le> 1"
    by simp_all
  note t = unsupported_preset_empty_grid
    [OF p(1) p(2) p(3) p(4) p(3) p(5), of "[''a.png'', ''notes.txt'', ''b.JPG'']" "\<lambda>p. False"
       "''data''" "(8, 8)" False "(None, None)"]
  from t [THEN conjunct1] t [THEN conjunct2, THEN conjunct1, unfolded f]
  show ?thesis by simp
qed

lemma warps_project_panorama:
  assumes "k < length yaw_pitch_pairs"
  shows "warps (project_panorama planar_image_size HDR_planar_image_size fov image_dir mask_dir
                  hdr_dir is_HDR i yaw_pitch_pairs ! k)
         = warps (project_direction
             (make_equi2pers (Some (fst planar_image_size), Some (snd planar_image_size)) fov)
             (if hdr_dir \<noteq> None then make_equi2pers HDR_planar_image_size fov
              else make_equi2pers (Some (fst planar_image_size), Some (snd planar_image_size)) fov)
             image_dir mask_dir hdr_dir is_HDR i k (yaw_pitch_pairs ! k))"
  using assms by (simp add: project_panorama_def Let_def nth_enumerate_eq)

lemma warps_project_panorama_two_exposures:
  assumes "k < length yaw_pitch_pairs"
  shows "warps (project_panorama_two_exposures planar_image_size fov image_dir i yaw_pitch_pairs ! k)
         = warps (project_direction_two_exposures
             (make_equi2pers (Some (fst planar_image_size), Some (snd planar_image_size)) fov)
             image_dir i k (yaw_pitch_pairs ! k))"
  using assms by (simp add: project_panorama_two_exposures_def Let_def nth_enumerate_eq)

text \<open>
  Claim C3. For the direction at position \<open>k\<close> of the list, the standard function warps
  the colour raster, then the mask when there is a mask directory, then the HDR raster when
  there is an HDR directory; the two-exposure function warps the colour raster, both masks
  and both exposures. Every one of these warp calls has roll 0, the direction's pitch and
  yaw in radians, the field of view of the run and the mode \<open>bilinear\<close>. In a run that
  ends without an error, the views of each panorama are those of this direction loop on the
  grid of the run, and the companion files of the panorama (mask and HDR raster, or the two
  masks and the two exposures) were found before the loop.
\<close>

theorem warps_share_rotation:
  assumes "k < length yaw_pitch_pairs"
  shows "map equi (warps (project_panorama planar_image_size HDR_planar_image_size fov image_dir
                            mask_dir hdr_dir is_HDR i yaw_pitch_pairs ! k))
           = Image # (if mask_dir \<noteq> None then [Mask] else []) @ (if hdr_dir \<noteq> None then [Hdr] else [])
       \<and> (\<forall>c \<in> set (warps (project_panorama planar_image_size HDR_planar_image_size fov image_dir
                            mask_dir hdr_dir is_HDR i yaw_pitch_pairs ! k)).
            roll c = 0 \<and> pitch c = pi * snd (yaw_pitch_pairs ! k) / 180
          \<and> yaw c = pi * fst (yaw_pitch_pairs ! k) / 180
          \<and> fov_x (projector c) = fov \<and> mode (projector c) = ''bilinear'')
       \<and> map equi (warps (project_panorama_two_exposures planar_image_size fov image_dir i
                            yaw_pitch_pairs ! k))
           = [Image, MaskE1, MaskE2, E1, E2]
       \<and> (\<forall>c \<in> set (warps (project_panorama_two_exposures planar_image_size fov image_dir i
                            yaw_pitch_pairs ! k)).
            roll c = 0 \<and> pitch c = pi * snd (yaw_pitch_pairs ! k) / 180
          \<and> yaw c = pi * fst (yaw_pitch_pairs ! k) / 180
          \<and> fov_x (projector c) = fov \<and> mode (projector c) = ''bilinear'')
       \<and> (\<forall>out views.
            generate_planar_projections_from_equirectangular listdir isfile image_dir
              planar_image_size samples_per_im mask_dir hdr_dir crop_factor is_HDR
              HDR_planar_image_size = Inr out
            \<longrightarrow> (i, views) \<in> set out
            \<longrightarrow> (\<exists>fov' pairs.
                   build_yaw_pitch_pairs samples_per_im crop_factor = Inr (fov', pairs)
                 \<and> views = project_panorama planar_image_size HDR_planar_image_size fov'
                             image_dir mask_dir hdr_dir is_HDR i pairs)
              \<and> (\<forall>m. mask_dir = Some m \<longrightarrow> isfile (os_path_join m i))
              \<and> (\<forall>h. hdr_dir = Some h \<longrightarrow>
                    (\<exists>hdr_addr.
                       (if is_HDR then exr_addr i (os_path_join h i) else Inr (os_path_join h i))
                         = Inr hdr_addr \<and> isfile hdr_addr)))
       \<and> (\<forall>out views.
            generate_planar_projections_from_equirectangular_with_two_exposures listdir isfile
              image_dir planar_image_size samples_per_im mask_e1_dir mask_e2_dir e1_dir e2_dir
              crop_factor = Inr out
            \<longrightarrow> (i, views) \<in> set out
            \<longrightarrow> (\<exists>fov' pairs.
                   build_yaw_pitch_pairs samples_per_im crop_factor = Inr (fov', pairs)
                 \<and> views = project_panorama_two_exposures planar_image_size fov' image_dir i pairs)
              \<and> isfile (replace (os_path_join mask_e1_dir i) ''.png'' ''_e1.png'')
              \<and> isfile (replace (os_path_join mask_e2_dir i) ''.png'' ''_e2.png'')
              \<and> (\<exists>e1_addr. exr_addr i (os_path_join e1_dir i) = Inr e1_addr
                    \<and> isfile (replace e1_addr ''.exr'' ''_e1.exr''))
              \<and> (\<exists>e2_addr. exr_addr i (os_path_join e2_dir i) = Inr e2_addr
                    \<and> isfile (replace e2_addr ''.exr'' ''_e2.exr'')))"
proof -
  have 1: "map equi (warps (project_panorama planar_image_size HDR_planar_image_size fov image_dir
                            mask_dir hdr_dir is_HDR i yaw_pitch_pairs ! k))
           = Image # (if mask_dir \<noteq> None then [Mask] else []) @ (if hdr_dir \<noteq> None then [Hdr] else [])"
    unfolding warps_project_panorama [OF assms] by (simp add: project_direction_def Let_def)
  have 2: "\<forall>c \<in> set (warps (project_panorama planar_image_size HDR_planar_image_size fov image_dir
                            mask_dir hdr_dir is_HDR i yaw_pitch_pairs ! k)).
            roll c = 0 \<and> pitch c = pi * snd (yaw_pitch_pairs ! k) / 180
          \<and> yaw c = pi * fst (yaw_pitch_pairs ! k) / 180
          \<and> fov_x (projector c) = fov \<and> mode (projector c) = ''bilinear''"
    unfolding warps_project_panorama [OF assms]
    by (simp add: project_direction_def make_equi2pers_def Let_def)
  have 3: "map equi (warps (project_panorama_two_exposures planar_image_size fov image_dir i
                            yaw_pitch_pairs ! k))
           = [Image, MaskE1, MaskE2, E1, E2]"
    unfolding warps_project_panorama_two_exposures [OF assms]
    by (simp add: project_direction_two_exposures_def Let_def)
  have 4: "\<forall>c \<in> set (warps (project_panorama_two_exposures planar_image_size fov image_dir i
                            yaw_pitch_pairs ! k)).
            roll c = 0 \<and> pitch c = pi * snd (yaw_pitch_pairs ! k) / 180
          \<and> yaw c = pi * fst (yaw_pitch_pairs ! k) / 180
          \<and> fov_x (projector c) = fov \<and> mode (projector c) = ''bilinear''"
    unfolding warps_project_panorama_two_exposures [OF assms]
    by (simp add: project_direction_two_exposures_def make_equi2pers_def Let_def)
  have 5: "\<forall>out views.
            generate_planar_projections_from_equirectangular listdir isfile image_dir
              planar_image_size samples_per_im mask_dir hdr_dir crop_factor is_HDR
              HDR_planar_image_size = Inr out
            \<longrightarrow> (i, views) \<in> set out
            \<longrightarrow> (\<exists>fov' pairs.
                   build_yaw_pitch_pairs samples_per_im crop_factor = Inr (fov', pairs)
                 \<and> views = project_panorama planar_image_size HDR_planar_image_size fov'
                             image_dir mask_dir hdr_dir is_HDR i pairs)
              \<and> (\<forall>m. mask_dir = Some m \<longrightarrow> isfile (os_path_join m i))
              \<and> (\<forall>h. hdr_dir = Some h \<longrightarrow>
                    (\<exists>hdr_addr.
                       (if is_HDR then exr_addr i (os_path_join h i) else Inr (os_path_join h i))
                         = Inr hdr_addr \<and> isfile hdr_addr))"
  proof (intro allI impI)
    fix out views
    assume "generate_planar_projections_from_equirectangular listdir isfile image_dir
              planar_image_size samples_per_im mask_dir hdr_dir crop_factor is_HDR
              HDR_planar_image_size = Inr out" and "(i, views) \<in> set out"
    from generate_member [OF this] obtain fov' pairs u where
      b: "build_yaw_pitch_pairs samples_per_im crop_factor = Inr (fov', pairs)"
      and l: "load_companions isfile mask_dir hdr_dir is_HDR i = Inr u"
      and v: "views = project_panorama planar_image_size HDR_planar_image_size fov'
                             image_dir mask_dir hdr_dir is_HDR i pairs"
      by blast
    from b v load_companions_ok [OF l]
    show "(\<exists>fov' pairs.
                   build_yaw_pitch_pairs samples_per_im crop_factor = Inr (fov', pairs)
                 \<and> views = project_panorama planar_image_size HDR_planar_image_size fov'
                             image_dir mask_dir hdr_dir is_HDR i pairs)
              \<and> (\<forall>m. mask_dir = Some m \<longrightarrow> isfile (os_path_join m i))
              \<and> (\<forall>h. hdr_dir = Some h \<longrightarrow>
                    (\<exists>hdr_addr.
                       (if is_HDR then exr_addr i (os_path_join h i) else Inr (os_path_join h i))
                         = Inr hdr_addr \<and> isfile hdr_addr))"
      by blast
  qed
  have 6: "\<forall>out views.
            generate_planar_projections_from_equirectangular_with_two_exposures listdir isfile
              image_dir planar_image_size samples_per_im mask_e1_dir mask_e2_dir e1_dir e2_dir
              crop_factor = Inr out
            \<longrightarrow> (i, views) \<in> set out
            \<longrightarrow> (\<exists>fov' pairs.
                   build_yaw_pitch_pairs samples_per_im crop_factor = Inr (fov', pairs)
                 \<and> views = project_panorama_two_exposures planar_image_size fov' image_dir i pairs)
              \<and> isfile (replace (os_path_join mask_e1_dir i) ''.png'' ''_e1.png'')
              \<and> isfile (replace (os_path_join mask_e2_dir i) ''.png'' ''_e2.png'')
              \<and> (\<exists>e1_addr. exr_addr i (os_path_join e1_dir i) = Inr e1_addr
                    \<and> isfile (replace e1_addr ''.exr'' ''_e1.exr''))
              \<and> (\<exists>e2_addr. exr_addr i (os_path_join e2_dir i) = Inr e2_addr
                    \<and> isfile (replace e2_addr ''.exr'' ''_e2.exr''))"
  proof (intro allI impI)
    fix out views
    assume "generate_planar_projections_from_equirectangular_with_two_exposures listdir isfile
              image_dir planar_image_size samples_per_im mask_e1_dir mask_e2_dir e1_dir e2_dir
              crop_factor = Inr out" and "(i, views) \<in> set out"
    from generate_two_exposures_member [OF this] obtain fov' pairs u where
      b: "build_yaw_pitch_pairs samples_per_im crop_factor = Inr (fov', pairs)"
      and l: "load_companions_two_exposures isfile mask_e1_dir mask_e2_dir e1_dir e2_dir i = Inr u"
      and v: "views = project_panorama_two_exposures planar_image_size fov' image_dir i pairs"
      by blast
    from b v load_companions_two_exposures_ok [OF l]
    show "(\<exists>fov' pairs.
                   build_yaw_pitch_pairs samples_per_im crop_factor = Inr (fov', pairs)
                 \<and> views = project_panorama_two_exposures planar_image_size fov' image_dir i pairs)
              \<and> isfile (replace (os_path_join mask_e1_dir i) ''.png'' ''_e1.png'')
              \<and> isfile (replace (os_path_join mask_e2_dir i) ''.png'' ''_e2.png'')
              \<and> (\<exists>e1_addr. exr_addr i (os_path_join e1_dir i) = Inr e1_addr
                    \<and> isfile (replace e1_addr ''.exr'' ''_e1.exr''))
              \<and> (\<exists>e2_addr. exr_addr i (os_path_join e2_dir i) = Inr e2_addr
                    \<and> isfile (replace e2_addr ''.exr'' ''_e2.exr''))"
      by blast
  qed
  from 1 2 3 4 5 6 show ?thesis by (intro conjI)
qed

lemma build_preset_8_zero_crop:
  "build_yaw_pitch_pairs 8 (0, 0, 0, 0) = Inr (120, [(- 180, 0), (- 90, 0), (0, 0), (90, 0), (- 180, 45), (0, 45), (- 180, - 45), (0, - 45)])"
  by (simp add: build_yaw_pitch_pairs_def ring_pairs_def arange_full_90 arange_full_180)

theorem warps_share_rotation_witness:
  "generate_planar_projections_from_equirectangular [''pano.png'', ''notes.txt'']
      (\<lambda>p. p \<in> set [''m/pano.png'', ''h/pano.exr'', ''m1/pano_e1.png'', ''m2/pano_e2.png'', ''e1/pano_e1.exr'', ''e2/pano_e2.exr''])
      ''data'' (8, 8) 8 (Some ''m'') (Some ''h'') (0, 0, 0, 0) True (Some 4, Some 4)
    = Inr [(''pano.png'',
            project_panorama (8, 8) (Some 4, Some 4) 120 ''data'' (Some ''m'') (Some ''h'') True
              ''pano.png'' [(- 180, 0), (- 90, 0), (0, 0), (90, 0), (- 180, 45), (0, 45), (- 180, - 45), (0, - 45)])]
   \<and> map equi (warps (project_panorama (8, 8) (Some 4, Some 4) 120 ''data'' (Some ''m'') (Some ''h'')
        True ''pano.png'' [(- 180, 0), (- 90, 0), (0, 0), (90, 0), (- 180, 45), (0, 45), (- 180, - 45), (0, - 45)] ! 1))
      = [Image, Mask, Hdr]
   \<and> generate_planar_projections_from_equirectangular_with_two_exposures [''pano.png'', ''notes.txt'']
      (\<lambda>p. p \<in> set [''m/pano.png'', ''h/pano.exr'', ''m1/pano_e1.png'', ''m2/pano_e2.png'', ''e1/pano_e1.exr'', ''e2/pano_e2.exr''])
      ''data'' (8, 8) 8 ''m1'' ''m2'' ''e1'' ''e2'' (0, 0, 0, 0)
    = Inr [(''pano.png'',
            project_panorama_two_exposures (8, 8) 120 ''data'' ''pano.png'' [(- 180, 0), (- 90, 0), (0, 0), (90, 0), (- 180, 45), (0, 45), (- 180, - 45), (0, - 45)])]
   \<and> map equi (warps (project_panorama_two_exposures (8, 8) 120 ''data'' ''pano.png'' [(- 180, 0), (- 90, 0), (0, 0), (90, 0), (- 180, 45), (0, 45), (- 180, - 45), (0, - 45)] ! 1))
      = [Image, MaskE1, MaskE2, E1, E2]
   \<and> map pitch (warps (project_panorama_two_exposures (8, 8) 120 ''data'' ''pano.png'' [(- 180, 0), (- 90, 0), (0, 0), (90, 0), (- 180, 45), (0, 45), (- 180, - 45), (0, - 45)] ! 5))
      = [pi / 4, pi / 4, pi / 4, pi / 4, pi / 4]"
proof -
  let ?isfile = "(\<lambda>p. p \<in> set [''m/pano.png'', ''h/pano.exr'', ''m1/pano_e1.png'', ''m2/pano_e2.png'', ''e1/pano_e1.exr'', ''e2/pano_e2.exr''])"
  let ?pairs = "[(- 180, 0), (- 90, 0), (0, 0), (90, 0), (- 180, 45), (0, 45), (- 180, - 45), (0, - 45)] :: (real \<times> real) list"
  have f: "is_equirect_image ''pano.png''" "\<not> is_equirect_image ''notes.txt''"
    "is_ldr_image ''pano.png''" "\<not> is_ldr_image ''notes.txt''"
    by (simp_all add: is_equirect_image_def is_ldr_image_def endswith_def lower_def lower_char_def)
  have g1: "generate_planar_projections_from_equirectangular [''pano.png'', ''notes.txt'']
      ?isfile ''data'' (8, 8) 8 (Some ''m'') (Some ''h'') (0, 0, 0, 0) True (Some 4, Some 4)
    = Inr [(''pano.png'',
            project_panorama (8, 8) (Some 4, Some 4) 120 ''data'' (Some ''m'') (Some ''h'') True
              ''pano.png'' ?pairs)]"
    by (simp add: generate_planar_projections_from_equirectangular_def build_preset_8_zero_crop
          f load_companions_def os_path_join_def exr_addr_def endswith_def)
  have g2: "generate_planar_projections_from_equirectangular_with_two_exposures
      [''pano.png'', ''notes.txt''] ?isfile ''data'' (8, 8) 8 ''m1'' ''m2'' ''e1'' ''e2'' (0, 0, 0, 0)
    = Inr [(''pano.png'',
            project_panorama_two_exposures (8, 8) 120 ''data'' ''pano.png'' ?pairs)]"
    by (simp add: generate_planar_projections_from_equirectangular_with_two_exposures_def
          build_preset_8_zero_crop f load_companions_two_exposures_def os_path_join_def
          exr_addr_def endswith_def)
  have k1: "1 < length ?pairs" and k5: "5 < length ?pairs" by simp_all
  note t1 = warps_share_rotation [OF k1, of "(8, 8)" "(Some 4, Some 4)" 120 "''data''"
               "Some ''m''" "Some ''h''" True "''pano.png''"]
  note t5 = warps_share_rotation [OF k5, of "(8, 8)" "(Some 4, Some 4)" 120 "''data''"
               "Some ''m''" "Some ''h''" True "''pano.png''"]
  have c1: "map equi (warps (project_panorama (8, 8) (Some 4, Some 4) 120 ''data'' (Some ''m'')
        (Some ''h'') True ''pano.png'' ?pairs ! 1)) = [Image, Mask, Hdr]"
    using t1 [THEN conjunct1] by simp
  have c3: "map equi (warps (project_panorama_two_exposures (8, 8) 120 ''data'' ''pano.png''
        ?pairs ! 1)) = [Image, MaskE1, MaskE2, E1, E2]"
    using t1 [THEN conjunct2, THEN conjunct2, THEN conjunct1] by simp
  have e5: "map equi (warps (project_panorama_two_exposures (8, 8) 120 ''data'' ''pano.png''
        ?pairs ! 5)) = [Image, MaskE1, MaskE2, E1, E2]"
    using t5 [THEN conjunct2, THEN conjunct2, THEN conjunct1] by simp
  have a5: "\<forall>c \<in> set (warps (project_panorama_two_exposures (8, 8) 120 ''data'' ''pano.png''
        ?pairs ! 5)). pitch c = pi / 4"
    using t5 [THEN conjunct2, THEN conjunct2, THEN conjunct2, THEN conjunct1] by simp
  have "length (warps (project_panorama_two_exposures (8, 8) 120 ''data'' ''pano.png''
        ?pairs ! 5)) = 5"
    using arg_cong [OF e5, of length] by simp
  then obtain w1 w2 w3 w4 w5 where w: "warps (project_panorama_two_exposures (8, 8) 120 ''data''
        ''pano.png'' ?pairs ! 5) = [w1, w2, w3, w4, w5]"
    by (auto simp: numeral_eq_Suc length_Suc_conv)
  from a5 have p5: "map pitch (warps (project_panorama_two_exposures (8, 8) 120 ''data''
        ''pano.png'' ?pairs ! 5)) = [pi / 4, pi / 4, pi / 4, pi / 4, pi / 4]"
    unfolding w by simp
  from g1 c1 g2 c3 p5 show ?thesis by (intro conjI)
qed

text \<open>
  Claim C8. The output name is built from \<open>i[:-4]\<close>, not from the stem: a \<open>.jpeg\<close> file
  passes the extension filter, and its first view is written under a name that keeps the
  dot of the extension, \<open>pano._0.png\<close>, where the stem would give \<open>pano_0.png\<close>.
\<close>

theorem planar_path_jpeg_keeps_dot:
  "is_equirect_image ''pano.jpeg''
   \<and> writes (project_direction (make_equi2pers (Some 8, Some 8) 120) (make_equi2pers (Some 8, Some 8) 120)
        ''data'' None None False ''pano.jpeg'' 0 (- 180, 0))
     = [(Image, ''data/planar_projections/pano._0.png'')]"
  by (simp add: is_equirect_image_def endswith_def lower_def lower_char_def is_exr_def
        project_direction_def planar_path_def)

subsection \<open>Exposure of ground-truth frames\<close>

lemma project_direction_GT_exposure:
  assumes "project_direction_GT equi2pers image_dir mask_dir clip_output use_mask True mask_bound
             i pose count dir = Inr view"
    and "is_exr i"
  shows "exposure (frame view) = Some (if take 3 i = ''rhs'' then 0.009 else 1)"
  using assms
  by (auto simp: project_direction_GT_def Let_def split: if_splits sum.splits)

lemma project_directions_GT_exposure:
  assumes "project_directions_GT equi2pers image_dir mask_dir clip_output use_mask True mask_bound
             i pose count dirs = Inr (mask_bound', views)"
    and "view \<in> set views" and "is_exr i"
  shows "exposure (frame view) = Some (if take 3 i = ''rhs'' then 0.009 else 1)"
  using assms
proof (induction dirs arbitrary: mask_bound count mask_bound' views)
  case Nil
  then show ?case by simp
next
  case (Cons dir dirs)
  from Cons.prems(1) obtain v vs where
    v: "project_direction_GT equi2pers image_dir mask_dir clip_output use_mask True mask_bound
          i pose count dir = Inr v"
    and vs: "project_directions_GT equi2pers image_dir mask_dir clip_output use_mask True
          (mask_bound \<or> use_mask) i pose (Suc count) dirs = Inr (mask_bound', vs)"
    and views: "views = v # vs"
    by (auto split: sum.splits)
  from Cons.prems(2) views consider "view = v" | "view \<in> set vs" by auto
  then show ?case
  proof cases
    case 1
    with v Cons.prems(3) show ?thesis by (simp add: project_direction_GT_exposure)
  next
    case 2
    with Cons.IH [OF vs] Cons.prems(3) show ?thesis by simp
  qed
qed

text \<open>
  Claim C9, as the code has it. In ground-truth mode with the exposure output enabled,
  every frame record rendered from an \<open>.exr\<close> panorama carries an exposure: 0.009 when
  the file name begins with \<open>rhs\<close>, 1.0 otherwise.
\<close>

theorem exposure_on_exr_frames:
  assumes "project_files_GT camera_to_worlds_panos equi2pers image_dir mask_dir clip_output use_mask
             True yaw_pitch_pairs mask_bound files_list = Inr frames"
    and "(i, view) \<in> set frames" and "is_exr i"
  shows "exposure (frame view) = Some (if take 3 i = ''rhs'' then 0.009 else 1)"
  using assms
proof (induction files_list arbitrary: mask_bound frames)
  case Nil
  then show ?case by simp
next
  case (Cons f files_list)
  show ?case
  proof (cases "is_equirect_image f")
    case False
    with Cons.prems(1) have "project_files_GT camera_to_worlds_panos equi2pers image_dir mask_dir
        clip_output use_mask True yaw_pitch_pairs mask_bound files_list = Inr frames"
      by simp
    from Cons.IH [OF this Cons.prems(2,3)] show ?thesis .
  next
    case True
    with Cons.prems(1) obtain pose mb views rest where
      d: "project_directions_GT equi2pers image_dir mask_dir clip_output use_mask True mask_bound
            f pose 0 yaw_pitch_pairs = Inr (mb, views)"
      and r: "project_files_GT camera_to_worlds_panos equi2pers image_dir mask_dir clip_output
            use_mask True yaw_pitch_pairs mb files_list = Inr rest"
      and fr: "frames = map (Pair f) views @ rest"
      by (auto split: option.splits sum.splits)
    from Cons.prems(2) fr consider "i = f" "view \<in> set views" | "(i, view) \<in> set rest" by auto
    then show ?thesis
    proof cases
      case 1
      with d Cons.prems(3) show ?thesis by (simp add: project_directions_GT_exposure)
    next
      case 2
      from Cons.IH [OF r 2 Cons.prems(3)] show ?thesis .
    qed
  qed
qed

theorem exposure_on_exr_frames_witness:
  "project_files_GT [''rhs_a'' \<mapsto> [[1, 0, 0, 5], [0, 1, 0, 6], [0, 0, 1, 7], [0, 0, 0, 1]]]
      (make_equi2pers (Some 8, Some 8) 120) ''data'' None False False True [(0, 0)] False [''rhs_a.exr'']
   = Inr [(''rhs_a.exr'',
       \<lparr>warps = [\<lparr>projector = make_equi2pers (Some 8, Some 8) 120, equi = Image, roll = 0,
                  pitch = 0, yaw = 0, clip = Some False\<rparr>],
        writes = [(Image, ''data/planar_projections/rhs_a_0.exr'')],
        frame = \<lparr>file_path = ''data/planar_projections/rhs_a_0.exr'',
                 transform_matrix = [[1, 0, 0, 5], [0, 1, 0, 6], [0, 0, 1, 7], [0, 0, 0, 1]],
                 exposure = Some 0.009, mask_path = None\<rparr>\<rparr>)]"
proof -
  let ?P = "[[1, 0, 0, 5], [0, 1, 0, 6], [0, 0, 1, 7], [0, 0, 0, 1 :: real]]"
  let ?v = "\<lparr>warps = [\<lparr>projector = make_equi2pers (Some 8, Some 8) 120, equi = Image, roll = 0,
                  pitch = 0, yaw = 0, clip = Some False\<rparr>],
        writes = [(Image, ''data/planar_projections/rhs_a_0.exr'')],
        frame = \<lparr>file_path = ''data/planar_projections/rhs_a_0.exr'',
                 transform_matrix = ?P, exposure = None, mask_path = None\<rparr>\<rparr>"
  have e: "is_exr ''rhs_a.exr''" "is_equirect_image ''rhs_a.exr''"
    by (simp_all add: is_exr_def is_equirect_image_def endswith_def lower_def lower_char_def)
  have p: "perspective_camera_pose ?P 0 0 = Inr ?P" by (rule pose_at_zero) simp
  have d: "project_direction_GT (make_equi2pers (Some 8, Some 8) 120) ''data'' None False False True
      False ''rhs_a.exr'' ?P 0 (0, 0) = Inr (?v\<lparr>frame := (frame ?v)\<lparr>exposure := Some 0.009\<rparr>\<rparr>)"
    by (simp add: project_direction_GT_def e p planar_path_def)
  then have f: "project_files_GT [''rhs_a'' \<mapsto> ?P] (make_equi2pers (Some 8, Some 8) 120) ''data'' None
      False False True [(0, 0)] False [''rhs_a.exr'']
      = Inr [(''rhs_a.exr'', ?v\<lparr>frame := (frame ?v)\<lparr>exposure := Some 0.009\<rparr>\<rparr>)]"
    by (simp add: e)
  from exposure_on_exr_frames [OF f _ e(1)] f show ?thesis by simp
qed

text \<open>
  A frame rendered from a \<open>.png\<close> panorama carries no exposure, with the exposure output
  enabled and the marker prefix in the name.
\<close>

theorem exposure_absent_on_png_frame:
  "project_direction_GT (make_equi2pers (Some 8, Some 8) 120) ''data'' None False False True False
      ''rhs_a.png'' [[1, 0, 0, 5], [0, 1, 0, 6], [0, 0, 1, 7], [0, 0, 0, 1]] 0 (0, 0)
   = Inr \<lparr>warps = [\<lparr>projector = make_equi2pers (Some 8, Some 8) 120, equi = Image, roll = 0,
                  pitch = 0, yaw = 0, clip = Some False\<rparr>],
        writes = [(Image, ''data/planar_projections/rhs_a_0.png'')],
        frame = \<lparr>file_path = ''data/planar_projections/rhs_a_0.png'',
                 transform_matrix = [[1, 0, 0, 5], [0, 1, 0, 6], [0, 0, 1, 7], [0, 0, 0, 1]],
                 exposure = None, mask_path = None\<rparr>\<rparr>"
proof -
  let ?P = "[[1, 0, 0, 5], [0, 1, 0, 6], [0, 0, 1, 7], [0, 0, 0, 1 :: real]]"
  have e: "\<not> is_exr ''rhs_a.png''"
    by (simp add: is_exr_def endswith_def lower_def lower_char_def)
  have p: "perspective_camera_pose ?P 0 0 = Inr ?P" by (rule pose_at_zero) simp
  show ?thesis by (simp add: project_direction_GT_def e p planar_path_def)
qed

end
